theory Spec2Isabelle
  imports Complex_Main "HOL-Library.AList"
begin

section \<open>Data model\<close>

text \<open>
  The grid components of the layout engine: the column (\<^verbatim>\<open>pkg/components/col/col.go\<close>),
  the matrix code leaf (\<^verbatim>\<open>pkg/components/code/matrixcode.go\<close>) and the barcode leaf (the
  unnamed source file). Components are Go objects reached through references, and a
  column keeps references to its children, so the leaves live in a store that maps
  addresses to objects; a method that has a pointer receiver takes the store and gives it
  back. A failed run (a Go panic) is a value of type \<open>panic\<close>.
\<close>

type_synonym addr = nat

datatype panic = NilPointerDereference | AssignmentToNilMap

text \<open>
  \<^verbatim>\<open>entity.Config\<close>, as \<^verbatim>\<open>Build\<close> fills it. The components read \<^verbatim>\<open>MaxGridSize\<close> only.
  Go's \<^verbatim>\<open>int\<close> is modelled by \<open>int\<close>: the components store, compare and return sizes and
  do no arithmetic on them. A \<^verbatim>\<open>*entity.Config\<close> is \<open>addr option\<close>, \<open>None\<close> being
  \<^verbatim>\<open>nil\<close>; a reference that is not nil always designates a configuration, so the
  configurations are a total function of the address.
\<close>

record Config =
  MaxGridSize :: int

type_synonym config_store = "addr \<Rightarrow> Config"

text \<open>
  \<^verbatim>\<open>interface{}\<close> values that the components put into a structure, and Go's
  \<^verbatim>\<open>map[string]interface{}\<close>: an association list with one entry for each key (the order
  of the entries belongs to the model only; nothing that the components do depends on
  it). \<open>None\<close> is the nil map, which has length 0 and cannot be assigned to;
  \<open>map_assign\<close> is the assignment \<^verbatim>\<open>m[k] = v\<close> to a map that is not nil.
\<close>

datatype any = IntV int | StrV string | BoolV bool | FloatV real

type_synonym details = "(string \<times> any) list option"

definition len_is_zero :: "details \<Rightarrow> bool" where
  "len_is_zero d = (case d of None \<Rightarrow> True | Some m \<Rightarrow> length m = 0)"

definition make_map :: details where
  "make_map = Some []"

definition map_assign :: "(string \<times> any) list \<Rightarrow> string \<Rightarrow> any \<Rightarrow> (string \<times> any) list" where
  "map_assign m k v = AList.update k v m"

record Structure =
  Type :: string
  Value :: any
  Details :: details

text \<open>
  The node of the go-tree library that carries a structure: \<^verbatim>\<open>node.New\<close> makes a node
  without successors, \<^verbatim>\<open>AddNext\<close> appends one successor.
\<close>

datatype 'a node = Node (data: 'a) (nexts: "'a node list")

definition node_New :: "'a \<Rightarrow> 'a node" where
  "node_New d = Node d []"

definition AddNext :: "'a node \<Rightarrow> 'a node \<Rightarrow> 'a node" where
  "AddNext n inner = Node (data n) (nexts n @ [inner])"

text \<open>
  The \<^verbatim>\<open>props\<close> package is not among the sources. Its property types are type
  parameters (\<open>'r\<close> for \<^verbatim>\<open>props.Rect\<close>, \<open>'b\<close> for \<^verbatim>\<open>props.Barcode\<close>, \<open>'s\<close> for
  \<^verbatim>\<open>props.Cell\<close>), and what the components call on them is a parameter of the model:
  the zero value, \<^verbatim>\<open>MakeValid\<close> and \<^verbatim>\<open>ToMap\<close>.
\<close>

record 'p props_ops =
  zero_value :: 'p
  MakeValid :: "'p \<Rightarrow> 'p"
  ToMap :: "'p \<Rightarrow> details"

record 'r matrixCode =
  matrixCode_code :: string
  matrixCode_prop :: 'r
  matrixCode_config :: "addr option"

record 'b barcode =
  barcode_code :: string
  barcode_prop :: 'b
  barcode_config :: "addr option"

text \<open>The implementations of the component interface among the sources.\<close>

datatype ('r, 'b) component = MatrixCode "'r matrixCode" | Barcode "'b barcode"

text \<open>
  The store of leaf objects. \<open>nxt\<close> is the address the next allocation returns. An address
  without an object stands for the nil interface value: a method call on it panics.
\<close>

record ('r, 'b) heap =
  objs :: "addr \<rightharpoonup> ('r, 'b) component"
  nxt :: addr

definition empty_heap :: "('r, 'b) heap" where
  "empty_heap = \<lparr>objs = Map.empty, nxt = 0\<rparr>"

definition alloc :: "('r, 'b) component \<Rightarrow> ('r, 'b) heap \<Rightarrow> addr \<times> ('r, 'b) heap" where
  "alloc obj h = (nxt h, \<lparr>objs = (objs h)(nxt h \<mapsto> obj), nxt = Suc (nxt h)\<rparr>)"

definition store :: "addr \<Rightarrow> ('r, 'b) component \<Rightarrow> ('r, 'b) heap \<Rightarrow> ('r, 'b) heap" where
  "store a obj h = h\<lparr>objs := (objs h)(a \<mapsto> obj)\<rparr>"

record 's col =
  col_size :: int
  col_isMax :: bool
  col_components :: "addr list"
  col_config :: "addr option"
  col_style :: "'s option"

text \<open>
  Modelled from the spec: \<^verbatim>\<open>entity.Cell\<close>, the geometry a parent hands to a child, is not
  among the sources; the spec gives it a width, a height and an absolute position.
\<close>

record Cell =
  X :: real
  Y :: real
  Width :: real
  Height :: real

text \<open>
  A pointer argument as the callee sees it: the address and the value found there.
\<close>

datatype 'a pointer = Pointer (address: addr) (pointee: 'a)

text \<open>
  The provider is the drawing backend, an interface. It is modelled by the sequence of
  calls it has received: each call with its arguments, in order. \<^verbatim>\<open>AddMatrixCode\<close> gets the
  cell by reference and the properties as \<^verbatim>\<open>&m.prop\<close> (the call records the properties
  found there); \<^verbatim>\<open>AddBarCode\<close> gets both by value. The calls return nothing, and a
  recorded call writes nothing through the references it gets.
\<close>

datatype ('r, 'b, 's) call =
    is_CreateCol: CreateCol real real "addr option" "'s option"
  | is_AddMatrixCode: AddMatrixCode string "Cell pointer" 'r
  | is_AddBarCode: AddBarCode string Cell 'b

type_synonym ('r, 'b, 's) provider = "('r, 'b, 's) call list"

text \<open>
  Modelled from the spec: the row (package \<^verbatim>\<open>row\<close>) is not among the sources. The spec
  gives it a fixed height and an ordered sequence of columns; \<^verbatim>\<open>New(height)\<close> makes a row
  without columns and \<^verbatim>\<open>Add(columns...)\<close> appends columns in order.
\<close>

record 's row =
  row_height :: real
  row_cols :: "'s col list"

definition row_New :: "real \<Rightarrow> 's row" where
  "row_New height = \<lparr>row_height = height, row_cols = []\<rparr>"

definition row_Add :: "'s row \<Rightarrow> 's col list \<Rightarrow> 's row" where
  "row_Add r cols = r\<lparr>row_cols := row_cols r @ cols\<rparr>"

section \<open>The column\<close>

text \<open>
  \<^verbatim>\<open>New(size ...int)\<close>: the variadic argument is the list \<open>sizes\<close>. The fields that the
  struct literal leaves out have Go's zero values.
\<close>

definition New :: "int list \<Rightarrow> 's col" where
  "New sizes =
     (if length sizes = 0
      then \<lparr>col_size = 0, col_isMax = True, col_components = [], col_config = None,
            col_style = None\<rparr>
      else \<lparr>col_size = hd sizes, col_isMax = False, col_components = [], col_config = None,
            col_style = None\<rparr>)"

definition Add :: "'s col \<Rightarrow> addr list \<Rightarrow> 's col" where
  "Add c components = c\<lparr>col_components := col_components c @ components\<rparr>"

definition GetSize :: "config_store \<Rightarrow> 's col \<Rightarrow> panic + int" where
  "GetSize cfgs c =
     (if col_isMax c
      then (case col_config c of
              None \<Rightarrow> Inl NilPointerDereference
            | Some p \<Rightarrow> Inr (MaxGridSize (cfgs p)))
      else Inr (col_size c))"

definition WithStyle :: "'s col \<Rightarrow> 's option \<Rightarrow> 's col" where
  "WithStyle c style = c\<lparr>col_style := style\<rparr>"

section \<open>The leaves\<close>

definition NewMatrix ::
  "'r props_ops \<Rightarrow> string \<Rightarrow> 'r list \<Rightarrow> ('r, 'b) heap \<Rightarrow> addr \<times> ('r, 'b) heap" where
  "NewMatrix R code barcodeProps h =
     (let prop = zero_value R;
          prop = (if length barcodeProps > 0 then hd barcodeProps else prop);
          prop = MakeValid R prop
      in alloc (MatrixCode \<lparr>matrixCode_code = code, matrixCode_prop = prop,
                            matrixCode_config = None\<rparr>) h)"

definition NewBar ::
  "'b props_ops \<Rightarrow> string \<Rightarrow> 'b list \<Rightarrow> ('r, 'b) heap \<Rightarrow> addr \<times> ('r, 'b) heap" where
  "NewBar B code ps h =
     (let prop = zero_value B;
          prop = (if length ps > 0 then hd ps else prop);
          prop = MakeValid B prop
      in alloc (Barcode \<lparr>barcode_code = code, barcode_prop = prop,
                         barcode_config = None\<rparr>) h)"

text \<open>
  The methods of a leaf have a pointer receiver: each takes the object and returns it as
  the call leaves it, next to its result.
\<close>

definition matrixCode_GetStructure ::
  "'r props_ops \<Rightarrow> 'r matrixCode \<Rightarrow> Structure node \<times> 'r matrixCode" where
  "matrixCode_GetStructure R m =
     (let str = \<lparr>Type = ''matrixcode'', Value = StrV (matrixCode_code m),
                 Details = ToMap R (matrixCode_prop m)\<rparr>
      in (node_New str, m))"

definition barcode_GetStructure :: "'b barcode \<Rightarrow> Structure node \<times> 'b barcode" where
  "barcode_GetStructure b =
     (let str = \<lparr>Type = ''barcode'', Value = StrV (barcode_code b), Details = None\<rparr>
      in (node_New str, b))"

definition matrixCode_SetConfig :: "'r matrixCode \<Rightarrow> addr option \<Rightarrow> 'r matrixCode" where
  "matrixCode_SetConfig m config = m\<lparr>matrixCode_config := config\<rparr>"

definition barcode_SetConfig :: "'b barcode \<Rightarrow> addr option \<Rightarrow> 'b barcode" where
  "barcode_SetConfig b config = b\<lparr>barcode_config := config\<rparr>"

definition matrixCode_Render ::
  "'r matrixCode \<Rightarrow> ('r, 'b, 's) provider \<Rightarrow> Cell pointer \<Rightarrow> ('r, 'b, 's) provider" where
  "matrixCode_Render m provider cell =
     provider @ [AddMatrixCode (matrixCode_code m) cell (matrixCode_prop m)]"

definition barcode_Render ::
  "'b barcode \<Rightarrow> ('r, 'b, 's) provider \<Rightarrow> Cell \<Rightarrow> ('r, 'b, 's) provider" where
  "barcode_Render b provider cell =
     provider @ [AddBarCode (barcode_code b) cell (barcode_prop b)]"

text \<open>
  Interface dispatch: a call through the component interface runs the method of the
  object's own type. The barcode's \<^verbatim>\<open>Render\<close> takes the cell by value, so it gets the
  cell that the reference designates.
\<close>

fun component_GetStructure ::
  "'r props_ops \<Rightarrow> ('r, 'b) component \<Rightarrow> Structure node \<times> ('r, 'b) component" where
  "component_GetStructure R (MatrixCode m) =
     (case matrixCode_GetStructure R m of (n, m') \<Rightarrow> (n, MatrixCode m'))"
| "component_GetStructure R (Barcode b) =
     (case barcode_GetStructure b of (n, b') \<Rightarrow> (n, Barcode b'))"

fun component_SetConfig :: "('r, 'b) component \<Rightarrow> addr option \<Rightarrow> ('r, 'b) component" where
  "component_SetConfig (MatrixCode m) config = MatrixCode (matrixCode_SetConfig m config)"
| "component_SetConfig (Barcode b) config = Barcode (barcode_SetConfig b config)"

fun component_Render ::
  "('r, 'b) component \<Rightarrow> ('r, 'b, 's) provider \<Rightarrow> Cell pointer \<Rightarrow> ('r, 'b, 's) provider" where
  "component_Render (MatrixCode m) provider cell = matrixCode_Render m provider cell"
| "component_Render (Barcode b) provider cell = barcode_Render b provider (pointee cell)"

fun component_config :: "('r, 'b) component \<Rightarrow> addr option" where
  "component_config (MatrixCode m) = matrixCode_config m"
| "component_config (Barcode b) = barcode_config b"

section \<open>The column's traversals\<close>

text \<open>
  The three loops over \<^verbatim>\<open>c.components\<close>. Each visits the references in stored order,
  looks the object up and calls its method; a nil reference panics at the call.
\<close>

fun GetStructure_components ::
  "'r props_ops \<Rightarrow> addr list \<Rightarrow> Structure node \<Rightarrow> ('r, 'b) heap \<Rightarrow>
   panic + (Structure node \<times> ('r, 'b) heap)" where
  "GetStructure_components R [] node h = Inr (node, h)"
| "GetStructure_components R (a # as) node h =
     (case objs h a of
        None \<Rightarrow> Inl NilPointerDereference
      | Some obj \<Rightarrow>
          (case component_GetStructure R obj of
             (inner, obj') \<Rightarrow> GetStructure_components R as (AddNext node inner) (store a obj' h)))"

definition GetStructure ::
  "'r props_ops \<Rightarrow> ('s option \<Rightarrow> details) \<Rightarrow> 's col \<Rightarrow> ('r, 'b) heap \<Rightarrow>
   panic + (Structure node \<times> 's col \<times> ('r, 'b) heap)" where
  "GetStructure R style_ToMap c h =
     (let str = \<lparr>Type = ''col'', Value = IntV (col_size c),
                 Details = style_ToMap (col_style c)\<rparr>;
          str_max =
            (if col_isMax c
             then (let str1 = (if len_is_zero (Details str)
                               then str\<lparr>Details := make_map\<rparr> else str)
                   in case Details str1 of
                        None \<Rightarrow> Inl AssignmentToNilMap
                      | Some m \<Rightarrow>
                          Inr (str1\<lparr>Details := Some (map_assign m ''is_max'' (BoolV True))\<rparr>))
             else Inr str)
      in case str_max of
           Inl e \<Rightarrow> Inl e
         | Inr str2 \<Rightarrow>
             (case GetStructure_components R (col_components c) (node_New str2) h of
                Inl e \<Rightarrow> Inl e
              | Inr (node, h') \<Rightarrow> Inr (node, c, h')))"

fun Render_components ::
  "addr list \<Rightarrow> ('r, 'b) heap \<Rightarrow> ('r, 'b, 's) provider \<Rightarrow> Cell pointer \<Rightarrow>
   panic + ('r, 'b, 's) provider" where
  "Render_components [] h provider cell = Inr provider"
| "Render_components (a # as) h provider cell =
     (case objs h a of
        None \<Rightarrow> Inl NilPointerDereference
      | Some component \<Rightarrow> Render_components as h (component_Render component provider cell) cell)"

text \<open>
  \<^verbatim>\<open>Render\<close> receives the cell by value and hands \<^verbatim>\<open>&cell\<close> to every child;
  \<open>cell_addr\<close> is the address at which this call holds its parameter.
\<close>

definition Render ::
  "'s col \<Rightarrow> ('r, 'b) heap \<Rightarrow> ('r, 'b, 's) provider \<Rightarrow> Cell \<Rightarrow> addr \<Rightarrow> bool \<Rightarrow>
   panic + ('r, 'b, 's) provider" where
  "Render c h provider cell cell_addr createCell =
     (let provider1 =
            (if createCell
             then provider @ [CreateCol (Width cell) (Height cell) (col_config c) (col_style c)]
             else provider)
      in Render_components (col_components c) h provider1 (Pointer cell_addr cell))"

fun SetConfig_components ::
  "addr list \<Rightarrow> addr option \<Rightarrow> ('r, 'b) heap \<Rightarrow> panic + ('r, 'b) heap" where
  "SetConfig_components [] config h = Inr h"
| "SetConfig_components (a # as) config h =
     (case objs h a of
        None \<Rightarrow> Inl NilPointerDereference
      | Some component \<Rightarrow>
          SetConfig_components as config (store a (component_SetConfig component config) h))"

definition SetConfig ::
  "'s col \<Rightarrow> addr option \<Rightarrow> ('r, 'b) heap \<Rightarrow> panic + ('s col \<times> ('r, 'b) heap)" where
  "SetConfig c config h =
     (let c1 = c\<lparr>col_config := config\<rparr>
      in case SetConfig_components (col_components c1) config h of
           Inl e \<Rightarrow> Inl e
         | Inr h' \<Rightarrow> Inr (c1, h'))"

section \<open>The convenience constructors\<close>

definition NewMatrixCol ::
  "'r props_ops \<Rightarrow> int \<Rightarrow> string \<Rightarrow> 'r list \<Rightarrow> ('r, 'b) heap \<Rightarrow> 's col \<times> ('r, 'b) heap" where
  "NewMatrixCol R sz code ps h =
     (case NewMatrix R code ps h of (matrixCode, h') \<Rightarrow> (Add (New [sz]) [matrixCode], h'))"

definition NewMatrixRow ::
  "'r props_ops \<Rightarrow> real \<Rightarrow> string \<Rightarrow> 'r list \<Rightarrow> ('r, 'b) heap \<Rightarrow> 's row \<times> ('r, 'b) heap" where
  "NewMatrixRow R height code ps h =
     (case NewMatrix R code ps h of
        (matrixCode, h') \<Rightarrow>
          (let c = Add (New []) [matrixCode] in (row_Add (row_New height) [c], h')))"

definition NewBarCol ::
  "'b props_ops \<Rightarrow> int \<Rightarrow> string \<Rightarrow> 'b list \<Rightarrow> ('r, 'b) heap \<Rightarrow> 's col \<times> ('r, 'b) heap" where
  "NewBarCol B sz code ps h =
     (case NewBar B code ps h of (bar, h') \<Rightarrow> (Add (New [sz]) [bar], h'))"

definition NewBarRow ::
  "'b props_ops \<Rightarrow> real \<Rightarrow> string \<Rightarrow> 'b list \<Rightarrow> ('r, 'b) heap \<Rightarrow> 's row \<times> ('r, 'b) heap" where
  "NewBarRow B height code ps h =
     (case NewBar B code ps h of
        (bar, h') \<Rightarrow> (let c = Add (New [0]) [bar] in (row_Add (row_New height) [c], h')))"

section \<open>Example inputs\<close>

text \<open>
  A configuration store in which every reference designates a configuration with
  \<^verbatim>\<open>MaxGridSize\<close> 12, and property operations over rectangles given as one number (a
  percentage): the zero value is 0, \<^verbatim>\<open>MakeValid\<close> replaces a value outside 1..100 by 100,
  \<^verbatim>\<open>ToMap\<close> exports the entry \<^verbatim>\<open>percent\<close>.
\<close>

definition configs12 :: config_store where
  "configs12 = (\<lambda>p. \<lparr>MaxGridSize = 12\<rparr>)"

definition percent_ops :: "int props_ops" where
  "percent_ops =
     \<lparr>zero_value = 0,
      MakeValid = (\<lambda>p. if p < 1 \<or> 100 < p then 100 else p),
      ToMap = (\<lambda>p. Some [(''percent'', IntV p)])\<rparr>"

definition no_style_ToMap :: "unit option \<Rightarrow> details" where
  "no_style_ToMap style = None"

text \<open>
  A store with two leaves, made by the constructors: a matrix code at address 0 and a
  barcode at address 1. A column that got its children in three calls of \<^verbatim>\<open>Add\<close>, the
  matrix code twice. A cell.
\<close>

definition heap2 :: "(int, int) heap" where
  "heap2 =
     snd (NewBar percent_ops ''67890'' []
            (snd (NewMatrix percent_ops ''12345'' [50] empty_heap)))"

definition matrix0 :: "(int, int) component" where
  "matrix0 =
     MatrixCode \<lparr>matrixCode_code = ''12345'', matrixCode_prop = 50, matrixCode_config = None\<rparr>"

definition bar1 :: "(int, int) component" where
  "bar1 = Barcode \<lparr>barcode_code = ''67890'', barcode_prop = 100, barcode_config = None\<rparr>"

definition example_col :: "unit col" where
  "example_col = foldl Add (New []) [[0], [], [1, 0]]"

definition example_cell :: Cell where
  "example_cell = \<lparr>X = 0, Y = 0, Width = 100, Height = 10\<rparr>"

section \<open>Facts about the store and the traversals\<close>

lemma component_SetConfig_config [simp]:
  "component_config (component_SetConfig x config) = config"
  by (cases x) (simp_all add: matrixCode_SetConfig_def barcode_SetConfig_def)

lemma component_SetConfig_twice [simp]:
  "component_SetConfig (component_SetConfig x config) config = component_SetConfig x config"
  by (cases x) (simp_all add: matrixCode_SetConfig_def barcode_SetConfig_def)

lemma objs_store [simp]: "objs (store a obj h) = (objs h)(a \<mapsto> obj)"
  by (simp add: store_def)

lemma nxt_store [simp]: "nxt (store a obj h) = nxt h"
  by (simp add: store_def)

lemma store_same: "objs h a = Some obj \<Longrightarrow> store a obj h = h"
  by (simp add: store_def map_upd_triv)

lemma objs_heap2: "objs heap2 = [0 \<mapsto> matrix0, 1 \<mapsto> bar1]"
  by (simp add: heap2_def NewBar_def NewMatrix_def alloc_def empty_heap_def percent_ops_def
        matrix0_def bar1_def)

lemma dom_heap2: "dom (objs heap2) = {0, 1}"
  by (auto simp: objs_heap2)

text \<open>
  \<^verbatim>\<open>SetConfig\<close> on live children returns, and the store it leaves differs from the one
  it got exactly at the children, which now hold the configuration.
\<close>

lemma SetConfig_components_result:
  "set as \<subseteq> dom (objs h) \<Longrightarrow>
   SetConfig_components as config h =
     Inr (h\<lparr>objs := (\<lambda>a. if a \<in> set as
                          then map_option (\<lambda>x. component_SetConfig x config) (objs h a)
                          else objs h a)\<rparr>)"
proof (induction as arbitrary: h)
  case Nil
  then show ?case by simp
next
  case (Cons a as)
  from Cons.prems obtain x where x: "objs h a = Some x" by auto
  let ?h1 = "store a (component_SetConfig x config) h"
  have "set as \<subseteq> dom (objs ?h1)" using Cons.prems by auto
  from Cons.IH [OF this] x show ?case
    by (auto simp: store_def fun_eq_iff intro!: heap.equality)
qed

lemma SetConfig_result:
  "set (col_components c) \<subseteq> dom (objs h) \<Longrightarrow>
   SetConfig c config h =
     Inr (c\<lparr>col_config := config\<rparr>,
          h\<lparr>objs := (\<lambda>a. if a \<in> set (col_components c)
                          then map_option (\<lambda>x. component_SetConfig x config) (objs h a)
                          else objs h a)\<rparr>)"
  by (simp add: SetConfig_def SetConfig_components_result)

text \<open>
  No leaf method writes a field in \<^verbatim>\<open>GetStructure\<close>, and a leaf's node has no successors.
\<close>

lemma component_GetStructure_same [simp]: "snd (component_GetStructure R x) = x"
  by (cases x) (simp_all add: matrixCode_GetStructure_def barcode_GetStructure_def)

lemma component_GetStructure_leaf [simp]: "nexts (fst (component_GetStructure R x)) = []"
  by (cases x) (simp_all add: matrixCode_GetStructure_def barcode_GetStructure_def node_New_def)

lemma matrixCode_GetStructure_node:
  "fst (matrixCode_GetStructure R m) =
     Node \<lparr>Type = ''matrixcode'', Value = StrV (matrixCode_code m),
           Details = ToMap R (matrixCode_prop m)\<rparr> []"
  by (simp add: matrixCode_GetStructure_def node_New_def)

lemma barcode_GetStructure_node:
  "fst (barcode_GetStructure b) =
     Node \<lparr>Type = ''barcode'', Value = StrV (barcode_code b), Details = None\<rparr> []"
  by (simp add: barcode_GetStructure_def node_New_def)

text \<open>
  The children of a column as objects: \<open>map (objs h) as = map Some children\<close> says that
  the references \<open>as\<close> designate, in this order, the objects \<open>children\<close>.
\<close>

lemma children_exist:
  "set as \<subseteq> dom (objs h) \<Longrightarrow> \<exists>children. map (objs h) as = map Some children"
proof (induction as)
  case Nil
  then show ?case by simp
next
  case (Cons a as)
  then obtain x xs where "objs h a = Some x" "map (objs h) as = map Some xs" by auto
  then have "map (objs h) (a # as) = map Some (x # xs)" by simp
  then show ?case by blast
qed

lemma GetStructure_components_result:
  "map (objs h) as = map Some children \<Longrightarrow>
   GetStructure_components R as node h =
     Inr (Node (data node) (nexts node @ map (\<lambda>x. fst (component_GetStructure R x)) children), h)"
proof (induction as arbitrary: node children)
  case Nil
  then show ?case by simp
next
  case (Cons a as)
  from Cons.prems obtain x xs where ch: "children = x # xs" and x: "objs h a = Some x"
    and xs: "map (objs h) as = map Some xs"
    by (cases children) auto
  obtain inner x' where g: "component_GetStructure R x = (inner, x')"
    by (cases "component_GetStructure R x")
  have "x' = x" using component_GetStructure_same [of R x] g by simp
  then have st: "store a x' h = h" using x by (simp add: store_same)
  show ?case using Cons.IH [OF xs, of "AddNext node inner"] x g st ch
    by (simp add: AddNext_def)
qed

text \<open>
  \<^verbatim>\<open>GetStructure\<close> of a column with live children: the node it returns, and the column
  and the store as it leaves them. The assignment of \<^verbatim>\<open>is_max\<close> never meets a nil map.
\<close>

lemma GetStructure_result:
  assumes "map (objs h) (col_components c) = map Some children"
  shows "\<exists>str. GetStructure R T c h =
           Inr (Node str (map (\<lambda>x. fst (component_GetStructure R x)) children), c, h) \<and>
           Type str = ''col'' \<and> Value str = IntV (col_size c) \<and>
           Details str =
             (if col_isMax c
              then (case T (col_style c) of
                      None \<Rightarrow> Some [(''is_max'', BoolV True)]
                    | Some m \<Rightarrow> Some (map_assign m ''is_max'' (BoolV True)))
              else T (col_style c))"
  using assms
  by (cases "T (col_style c)")
     (auto simp: GetStructure_def Let_def GetStructure_components_result node_New_def
        len_is_zero_def make_map_def map_assign_def)

lemma component_Render_appends:
  "component_Render x provider cell = provider @ component_Render x [] cell"
  by (cases x) (simp_all add: matrixCode_Render_def barcode_Render_def)

lemma component_Render_one_call:
  "\<exists>k. component_Render x [] cell = [k] \<and> \<not> is_CreateCol k"
  by (cases x) (simp_all add: matrixCode_Render_def barcode_Render_def)

lemma Render_components_result:
  "map (objs h) as = map Some children \<Longrightarrow>
   Render_components as h provider cell =
     Inr (provider @ concat (map (\<lambda>x. component_Render x [] cell) children))"
proof (induction as arbitrary: provider children)
  case Nil
  then show ?case by simp
next
  case (Cons a as)
  from Cons.prems obtain x xs where ch: "children = x # xs" and x: "objs h a = Some x"
    and xs: "map (objs h) as = map Some xs"
    by (cases children) auto
  show ?case using Cons.IH [OF xs, of "component_Render x provider cell"] x ch
    component_Render_appends [of x provider cell] by simp
qed

lemma col_components_foldl_Add:
  "col_components (foldl Add c batches) = col_components c @ concat batches"
  by (induction batches arbitrary: c) (simp_all add: Add_def)

lemma example_children:
  "map (objs heap2) (col_components example_col) = map Some [matrix0, bar1, matrix0]"
  by (simp add: objs_heap2 example_col_def Add_def New_def)

section \<open>Size of a column\<close>

lemma GetSize_fixed: "\<not> col_isMax c \<Longrightarrow> GetSize cfgs c = Inr (col_size c)"
  by (simp add: GetSize_def)

lemma GetSize_max_nil:
  "col_isMax c \<Longrightarrow> col_config c = None \<Longrightarrow> GetSize cfgs c = Inl NilPointerDereference"
  by (simp add: GetSize_def)

lemma GetSize_max_set:
  "col_isMax c \<Longrightarrow> col_config c = Some p \<Longrightarrow> GetSize cfgs c = Inr (MaxGridSize (cfgs p))"
  by (simp add: GetSize_def)

lemma New_nil [simp]:
  "New [] = \<lparr>col_size = 0, col_isMax = True, col_components = [], col_config = None,
             col_style = None\<rparr>"
  by (simp add: New_def)

lemma New_cons [simp]:
  "New (s # ss) = \<lparr>col_size = s, col_isMax = False, col_components = [], col_config = None,
                   col_style = None\<rparr>"
  by (simp add: New_def)

text \<open>
  C1 (as the code has it). The claim asks for a configuration-not-set error that is not
  a panic. \<^verbatim>\<open>GetSize\<close> returns an \<^verbatim>\<open>int\<close> and has no error result: on an auto-max column
  whose configuration is still nil it reads \<^verbatim>\<open>c.config.MaxGridSize\<close> through the nil
  reference and panics. The counterexample is the column \<^verbatim>\<open>New()\<close>.
\<close>

theorem C1_GetSize_before_SetConfig_panics:
  "GetSize configs12 (New [] :: unit col) = Inl NilPointerDereference"
  by (simp add: GetSize_def)

text \<open>
  C1, amended: for every auto-max column whose configuration has not been set,
  \<^verbatim>\<open>GetSize\<close> returns no size at all (so neither 0 nor any other number): it stops with
  the nil-dereference panic, whatever configurations exist.
\<close>

theorem C1_GetSize_unconfigured_auto_max:
  assumes "col_isMax c" and "col_config c = None"
  shows "GetSize cfgs c = Inl NilPointerDereference \<and> (\<forall>n. GetSize cfgs c \<noteq> Inr n)"
  using assms by (simp add: GetSize_def)

theorem C1_GetSize_unconfigured_auto_max_witness:
  "col_isMax (New [] :: unit col) \<and> col_config (New [] :: unit col) = None \<and>
   GetSize configs12 (New [] :: unit col) = Inl NilPointerDereference \<and>
   GetSize configs12 (New [] :: unit col) \<noteq> Inr 0"
  using C1_GetSize_unconfigured_auto_max [of "New [] :: unit col" configs12] by simp

text \<open>
  C2. A column built with an explicit size \<open>S\<close> (and any children) reports \<open>S\<close> with no
  configuration at all, and also after \<^verbatim>\<open>SetConfig\<close> with any reference \<open>p\<close>, nil
  included, whatever the configurations hold. A column built without a size reports,
  after \<^verbatim>\<open>SetConfig\<close> with a reference \<open>g\<close>, the \<^verbatim>\<open>MaxGridSize\<close> of the configuration at
  \<open>g\<close>: every \<open>G\<close>, so every \<open>G > 0\<close>. The children are live objects, so that
  \<^verbatim>\<open>SetConfig\<close> returns.
\<close>

theorem C2_GetSize_resolution:
  fixes h :: "('r, 'b) heap" and xs :: "addr list"
  assumes "set xs \<subseteq> dom (objs h)"
  shows "GetSize cfgs (Add (New (S # ss)) xs :: 's col) = Inr S \<and>
         (\<exists>c1 h1. SetConfig (Add (New (S # ss)) xs :: 's col) p h = Inr (c1, h1) \<and>
                  GetSize cfgs c1 = Inr S) \<and>
         (\<exists>c2 h2. SetConfig (Add (New []) xs :: 's col) (Some g) h = Inr (c2, h2) \<and>
                  GetSize cfgs c2 = Inr (MaxGridSize (cfgs g)))"
proof -
  have 1: "GetSize cfgs (Add (New (S # ss)) xs :: 's col) = Inr S"
    by (simp add: GetSize_def Add_def)
  have 2: "\<exists>c1 h1. SetConfig (Add (New (S # ss)) xs :: 's col) p h = Inr (c1, h1) \<and>
                  GetSize cfgs c1 = Inr S"
    using assms by (simp add: SetConfig_result Add_def GetSize_def)
  have 3: "\<exists>c2 h2. SetConfig (Add (New []) xs :: 's col) (Some g) h = Inr (c2, h2) \<and>
                  GetSize cfgs c2 = Inr (MaxGridSize (cfgs g))"
    using assms by (simp add: SetConfig_result Add_def GetSize_def)
  from 1 2 3 show ?thesis by blast
qed

theorem C2_GetSize_resolution_witness:
  "set [0, 1] \<subseteq> dom (objs heap2) \<and>
   GetSize configs12 (Add (New [6]) [0, 1] :: unit col) = Inr 6 \<and>
   (\<exists>c1 h1. SetConfig (Add (New [6]) [0, 1] :: unit col) None heap2 = Inr (c1, h1) \<and>
            GetSize configs12 c1 = Inr 6) \<and>
   (\<exists>c2 h2. SetConfig (Add (New []) [0, 1] :: unit col) (Some 7) heap2 = Inr (c2, h2) \<and>
            GetSize configs12 c2 = Inr 12)"
proof -
  have d: "set [0, 1] \<subseteq> dom (objs heap2)" by (simp add: dom_heap2)
  show ?thesis
    using d C2_GetSize_resolution [OF d, of configs12 6 "[]" None 7]
    by (simp add: configs12_def)
qed

text \<open>
  C8 (as the code has it). The claim bounds the stored size by 0 and \<^verbatim>\<open>MaxGridSize\<close> for
  every integer passed to the constructor. \<^verbatim>\<open>New\<close> checks nothing: \<^verbatim>\<open>New(-1)\<close> has size
  -1, and \<^verbatim>\<open>New(13)\<close> has size 13 where \<^verbatim>\<open>MaxGridSize\<close> is 12.
\<close>

theorem C8_size_not_validated:
  "GetSize configs12 (New [- 1] :: unit col) = Inr (- 1) \<and>
   \<not> (0 \<le> col_size (New [- 1] :: unit col)) \<and>
   GetSize configs12 (New [13] :: unit col) = Inr 13 \<and>
   \<not> (col_size (New [13] :: unit col) \<le> MaxGridSize (configs12 0))"
  by (simp add: GetSize_def configs12_def)

text \<open>
  C8, amended: the constructor stores the size it is given as it is, and \<^verbatim>\<open>GetSize\<close>
  returns it; so the stored size lies between 0 and a grid size \<open>G\<close> exactly when the
  integer passed to the constructor does.
\<close>

theorem C8_size_stored_unchanged:
  "col_size (New (s # ss) :: 's col) = s \<and>
   \<not> col_isMax (New (s # ss) :: 's col) \<and>
   GetSize cfgs (New (s # ss) :: 's col) = Inr s \<and>
   ((0 \<le> col_size (New (s # ss) :: 's col) \<and> col_size (New (s # ss) :: 's col) \<le> G) =
    (0 \<le> s \<and> s \<le> G))"
  by (simp add: GetSize_def)

section \<open>Rendering a column\<close>

text \<open>
  C3. For every column whose children are live objects, every provider (the calls it
  has received so far), every cell, the address \<open>cell_addr\<close> at which the call holds it,
  and both values of \<^verbatim>\<open>createCell\<close>: \<^verbatim>\<open>Render\<close> adds to the provider's calls first
  \<^verbatim>\<open>CreateCol\<close> with the cell's width and height, the column's configuration and its
  style, once when \<^verbatim>\<open>createCell\<close> is true and not at all when it is false, and then, for
  each child in stored order, what that child's \<^verbatim>\<open>Render\<close> adds when it gets the one
  reference \<open>Pointer cell_addr cell\<close>; each child adds one call, which is not
  \<^verbatim>\<open>CreateCol\<close>.
\<close>

theorem C3_Render_calls:
  assumes "map (objs h) (col_components c) = map Some children"
  shows "Render c h provider cell cell_addr createCell =
           Inr (provider @
                (if createCell
                 then [CreateCol (Width cell) (Height cell) (col_config c) (col_style c)]
                 else []) @
                concat (map (\<lambda>x. component_Render x [] (Pointer cell_addr cell)) children)) \<and>
         (\<forall>x \<in> set children.
            \<exists>k. component_Render x [] (Pointer cell_addr cell) = [k] \<and> \<not> is_CreateCol k)"
  using assms by (simp add: Render_def Render_components_result component_Render_one_call)

theorem C3_Render_calls_witness:
  "map (objs heap2) (col_components example_col) = map Some [matrix0, bar1, matrix0] \<and>
   Render example_col heap2 [] example_cell 9 True =
     Inr [CreateCol 100 10 None None,
          AddMatrixCode ''12345'' (Pointer 9 example_cell) 50,
          AddBarCode ''67890'' example_cell 100,
          AddMatrixCode ''12345'' (Pointer 9 example_cell) 50] \<and>
   Render example_col heap2 [] example_cell 9 False =
     Inr [AddMatrixCode ''12345'' (Pointer 9 example_cell) 50,
          AddBarCode ''67890'' example_cell 100,
          AddMatrixCode ''12345'' (Pointer 9 example_cell) 50]"
proof -
  note d = example_children
  have s: "col_config example_col = None" "col_style example_col = None"
    by (simp_all add: example_col_def Add_def)
  show ?thesis
    using d C3_Render_calls [OF d, of "[]" example_cell 9 True]
      C3_Render_calls [OF d, of "[]" example_cell 9 False]
    by (simp add: s matrixCode_Render_def barcode_Render_def example_cell_def matrix0_def
          bar1_def)
qed

section \<open>The structure of a tree\<close>

text \<open>
  C4. A column is built by \<^verbatim>\<open>New\<close> and any number of calls of \<^verbatim>\<open>Add\<close>, each with any
  number of components (\<open>batches\<close>, so \<open>N\<close> is the length of \<open>concat batches\<close>, 0
  included); the components are the live objects \<open>children\<close>. Then \<^verbatim>\<open>GetStructure\<close>
  returns a node whose successors are the nodes of the children in the order in which
  they were added, as many as were added, and each child's node has no successors.
\<close>

theorem C4_structure_mirrors_composition:
  fixes c :: "'s col" and h :: "('r, 'b) heap"
  assumes "c = foldl Add (New sizes) batches"
    and "map (objs h) (concat batches) = map Some children"
  shows "\<exists>n. GetStructure R T c h = Inr (n, c, h) \<and>
             nexts n = map (\<lambda>x. fst (component_GetStructure R x)) children \<and>
             length (nexts n) = length (concat batches) \<and>
             (\<forall>k \<in> set (nexts n). nexts k = [])"
proof -
  have "col_components c = concat batches"
    using assms(1) by (simp add: col_components_foldl_Add New_def)
  with assms have ch: "map (objs h) (col_components c) = map Some children" by simp
  from GetStructure_result [OF ch, of R T] obtain str where
    g: "GetStructure R T c h =
          Inr (Node str (map (\<lambda>x. fst (component_GetStructure R x)) children), c, h)"
    by blast
  have "length children = length (concat batches)"
    using assms(2) by (metis length_map)
  with g show ?thesis by auto
qed

theorem C4_structure_mirrors_composition_witness:
  "example_col = foldl Add (New []) [[0], [], [1, 0]] \<and>
   map (objs heap2) (concat [[0], [], [1, 0]]) = map Some [matrix0, bar1, matrix0] \<and>
   (\<exists>n. GetStructure percent_ops no_style_ToMap example_col heap2 = Inr (n, example_col, heap2) \<and>
        nexts n =
          [Node \<lparr>Type = ''matrixcode'', Value = StrV ''12345'',
                 Details = Some [(''percent'', IntV 50)]\<rparr> [],
           Node \<lparr>Type = ''barcode'', Value = StrV ''67890'', Details = None\<rparr> [],
           Node \<lparr>Type = ''matrixcode'', Value = StrV ''12345'',
                 Details = Some [(''percent'', IntV 50)]\<rparr> []] \<and>
        length (nexts n) = 3)"
proof -
  have e: "example_col = foldl Add (New []) [[0], [], [1, 0]]"
    by (simp add: example_col_def)
  have d: "map (objs heap2) (concat [[0], [], [1, 0]]) = map Some [matrix0, bar1, matrix0]"
    by (simp add: objs_heap2)
  show ?thesis
    using e d C4_structure_mirrors_composition [OF e d, of percent_ops no_style_ToMap]
    by (auto simp: matrixCode_GetStructure_def barcode_GetStructure_def node_New_def
          percent_ops_def matrix0_def bar1_def)
qed

text \<open>
  C6 (the code at the failing input). The claim gives the node of every leaf the
  exported properties as details. The matrix code does so
  (\<open>matrixCode_GetStructure_node\<close>); the barcode's \<^verbatim>\<open>GetStructure\<close> fills the type and the
  value only. For the barcode that \<^verbatim>\<open>NewBar("12345")\<close> makes, the details are the nil map,
  while the export of its properties is not.
\<close>

theorem C6_barcode_structure_without_details:
  "NewBar percent_ops ''12345'' [] (empty_heap :: (int, int) heap) =
     (0, \<lparr>objs = [0 \<mapsto> Barcode \<lparr>barcode_code = ''12345'', barcode_prop = 100,
                                    barcode_config = None\<rparr>],
          nxt = 1\<rparr>) \<and>
   fst (component_GetStructure percent_ops
          (Barcode \<lparr>barcode_code = ''12345'', barcode_prop = 100, barcode_config = None\<rparr>
             :: (int, int) component)) =
     Node \<lparr>Type = ''barcode'', Value = StrV ''12345'', Details = None\<rparr> [] \<and>
   ToMap percent_ops 100 = Some [(''percent'', IntV 100)]"
  by (simp add: NewBar_def alloc_def empty_heap_def percent_ops_def barcode_GetStructure_def
        node_New_def)

text \<open>
  C9. For every column whose children are live objects, \<^verbatim>\<open>GetStructure\<close> returns; the
  column and the store it leaves are the ones it got, so no field of the column or of a
  component has changed; and a second call, on what the first call left, returns an equal
  node. (\<^verbatim>\<open>ToMap\<close> is taken to return a map of its own each time, as a function of the
  properties.)
\<close>

theorem C9_GetStructure_twice:
  assumes "set (col_components c) \<subseteq> dom (objs h)"
  shows "\<exists>n1 c1 h1 n2 c2 h2.
           GetStructure R T c h = Inr (n1, c1, h1) \<and>
           GetStructure R T c1 h1 = Inr (n2, c2, h2) \<and>
           n2 = n1 \<and> c1 = c \<and> h1 = h \<and> c2 = c \<and> h2 = h"
proof -
  from children_exist [OF assms] obtain children where
    "map (objs h) (col_components c) = map Some children" by blast
  from GetStructure_result [OF this, of R T] obtain n where
    "GetStructure R T c h = Inr (n, c, h)" by blast
  then show ?thesis by simp
qed

theorem C9_GetStructure_twice_witness:
  "set (col_components example_col) \<subseteq> dom (objs heap2) \<and>
   (\<exists>n1 n2.
      GetStructure percent_ops no_style_ToMap example_col heap2 = Inr (n1, example_col, heap2) \<and>
      GetStructure percent_ops no_style_ToMap example_col heap2 = Inr (n2, example_col, heap2) \<and>
      n2 = n1 \<and>
      data n1 = \<lparr>Type = ''col'', Value = IntV 0, Details = Some [(''is_max'', BoolV True)]\<rparr>)"
proof -
  have d: "set (col_components example_col) \<subseteq> dom (objs heap2)"
    by (simp add: dom_heap2 example_col_def Add_def)
  from C9_GetStructure_twice [OF d, of percent_ops no_style_ToMap] obtain n where
    g: "GetStructure percent_ops no_style_ToMap example_col heap2 = Inr (n, example_col, heap2)"
    by auto
  from GetStructure_result [OF example_children, of percent_ops no_style_ToMap] g
  have "data n = \<lparr>Type = ''col'', Value = IntV 0, Details = Some [(''is_max'', BoolV True)]\<rparr>"
    by (auto simp: example_col_def Add_def no_style_ToMap_def)
  with d g show ?thesis by simp
qed

section \<open>Propagation of the configuration\<close>

text \<open>
  C5. For every column whose children are live objects and every configuration
  reference: \<^verbatim>\<open>SetConfig\<close> returns, the column then holds the reference, its children are
  the same, and every child holds the same reference.
\<close>

theorem C5_SetConfig_propagates:
  assumes "set (col_components c) \<subseteq> dom (objs h)"
  shows "\<exists>c' h'. SetConfig c config h = Inr (c', h') \<and>
           col_config c' = config \<and> col_components c' = col_components c \<and>
           (\<forall>a \<in> set (col_components c'). \<exists>x. objs h' a = Some x \<and> component_config x = config)"
  using assms by (auto simp: SetConfig_result)

theorem C5_SetConfig_propagates_witness:
  "set (col_components example_col) \<subseteq> dom (objs heap2) \<and>
   (\<exists>c' h'. SetConfig example_col (Some 7) heap2 = Inr (c', h') \<and>
           col_config c' = Some 7 \<and> col_components c' = [0, 1, 0] \<and>
           map_option component_config (objs h' 0) = Some (Some 7) \<and>
           map_option component_config (objs h' 1) = Some (Some 7))"
proof -
  have d: "set (col_components example_col) \<subseteq> dom (objs heap2)"
    by (simp add: dom_heap2 example_col_def Add_def)
  have c: "col_components example_col = [0, 1, 0]"
    by (simp add: example_col_def Add_def)
  from C5_SetConfig_propagates [OF d, of "Some 7"] obtain c' h' where
    "SetConfig example_col (Some 7) heap2 = Inr (c', h')" "col_config c' = Some 7"
    "col_components c' = col_components example_col"
    "\<forall>a \<in> set (col_components c'). \<exists>x. objs h' a = Some x \<and> component_config x = Some 7"
    by blast
  with c d show ?thesis by auto
qed

text \<open>
  C10. For every column \<open>c\<close> whose children are live objects and every component \<open>x\<close>
  that is not among them: \<^verbatim>\<open>c.SetConfig(config)\<close> returns and leaves the object at \<open>x\<close> as
  it was; after \<^verbatim>\<open>c.Add(x)\<close> (which takes no store, so writes no component) the column
  holds \<open>config\<close>, \<open>x\<close> is its last child, and the earlier children hold \<open>config\<close>.
\<close>

theorem C10_Add_after_SetConfig:
  assumes "set (col_components c) \<subseteq> dom (objs h)" and "x \<notin> set (col_components c)"
  shows "\<exists>c1 h1. SetConfig c config h = Inr (c1, h1) \<and>
           objs h1 x = objs h x \<and>
           col_config (Add c1 [x]) = config \<and>
           col_components (Add c1 [x]) = col_components c @ [x] \<and>
           (\<forall>a \<in> set (col_components c). \<exists>y. objs h1 a = Some y \<and> component_config y = config)"
  using assms by (auto simp: SetConfig_result Add_def)

theorem C10_Add_after_SetConfig_witness:
  "set (col_components (Add (New []) [0] :: unit col)) \<subseteq> dom (objs heap2) \<and>
   1 \<notin> set (col_components (Add (New []) [0] :: unit col)) \<and>
   (\<exists>c1 h1. SetConfig (Add (New []) [0] :: unit col) (Some 7) heap2 = Inr (c1, h1) \<and>
           objs h1 1 = Some bar1 \<and> component_config bar1 = None \<and>
           col_config (Add c1 [1]) = Some 7 \<and>
           col_components (Add c1 [1]) = [0, 1] \<and>
           map_option component_config (objs h1 0) = Some (Some 7))"
proof -
  have d: "set (col_components (Add (New []) [0] :: unit col)) \<subseteq> dom (objs heap2)"
    by (simp add: dom_heap2 Add_def)
  have n: "1 \<notin> set (col_components (Add (New []) [0] :: unit col))"
    by (simp add: Add_def)
  show ?thesis
    using d n C10_Add_after_SetConfig [OF d n, of "Some 7"]
    by (auto simp: Add_def objs_heap2 bar1_def)
qed

section \<open>What the convenience constructors build\<close>

text \<open>
  What the four constructors build, for every argument: the leaf is the one that
  \<^verbatim>\<open>NewMatrix\<close> or \<^verbatim>\<open>NewBar\<close> allocates, the column holds that leaf only, and the row
  holds that column only. \<^verbatim>\<open>NewMatrixRow\<close> makes the column with \<^verbatim>\<open>col.New()\<close>,
  \<^verbatim>\<open>NewBarRow\<close> with \<^verbatim>\<open>col.New(0)\<close>.
\<close>

lemma NewMatrix_result:
  "NewMatrix R code ps h =
     (nxt h,
      \<lparr>objs = (objs h)(nxt h \<mapsto>
                MatrixCode \<lparr>matrixCode_code = code,
                            matrixCode_prop =
                              MakeValid R (case ps of [] \<Rightarrow> zero_value R | p # _ \<Rightarrow> p),
                            matrixCode_config = None\<rparr>),
       nxt = Suc (nxt h)\<rparr>)"
  by (cases ps) (simp_all add: NewMatrix_def alloc_def)

lemma NewBar_result:
  "NewBar B code ps h =
     (nxt h,
      \<lparr>objs = (objs h)(nxt h \<mapsto>
                Barcode \<lparr>barcode_code = code,
                         barcode_prop =
                           MakeValid B (case ps of [] \<Rightarrow> zero_value B | p # _ \<Rightarrow> p),
                         barcode_config = None\<rparr>),
       nxt = Suc (nxt h)\<rparr>)"
  by (cases ps) (simp_all add: NewBar_def alloc_def)

lemma NewMatrixCol_result:
  "NewMatrixCol R sz code ps h =
     (\<lparr>col_size = sz, col_isMax = False, col_components = [fst (NewMatrix R code ps h)],
       col_config = None, col_style = None\<rparr>,
      snd (NewMatrix R code ps h))"
  by (simp add: NewMatrixCol_def Add_def split: prod.splits)

lemma NewMatrixRow_result:
  "NewMatrixRow R height code ps h =
     (\<lparr>row_height = height,
       row_cols = [\<lparr>col_size = 0, col_isMax = True,
                    col_components = [fst (NewMatrix R code ps h)],
                    col_config = None, col_style = None\<rparr>]\<rparr>,
      snd (NewMatrix R code ps h))"
  by (simp add: NewMatrixRow_def Add_def row_Add_def row_New_def split: prod.splits)

lemma NewBarCol_result:
  "NewBarCol B sz code ps h =
     (\<lparr>col_size = sz, col_isMax = False, col_components = [fst (NewBar B code ps h)],
       col_config = None, col_style = None\<rparr>,
      snd (NewBar B code ps h))"
  by (simp add: NewBarCol_def Add_def split: prod.splits)

lemma NewBarRow_result:
  "NewBarRow B height code ps h =
     (\<lparr>row_height = height,
       row_cols = [\<lparr>col_size = 0, col_isMax = False,
                    col_components = [fst (NewBar B code ps h)],
                    col_config = None, col_style = None\<rparr>]\<rparr>,
      snd (NewBar B code ps h))"
  by (simp add: NewBarRow_def Add_def row_Add_def row_New_def split: prod.splits)

text \<open>
  C7 (the code at the failing input). The claim makes the one column of the row that
  \<^verbatim>\<open>NewBarRow\<close> returns auto-max, like that of \<^verbatim>\<open>NewMatrixRow\<close>. \<^verbatim>\<open>NewBarRow(10, "12345")\<close>
  returns a row whose column has the explicit size 0 and is not auto-max, where
  \<^verbatim>\<open>NewMatrixRow(10, "12345")\<close> returns an auto-max column; once configured with
  \<^verbatim>\<open>MaxGridSize\<close> 12 the first column reports the size 0 and the second 12.
\<close>

theorem C7_NewBarRow_column_not_auto_max:
  "fst (NewBarRow percent_ops 10 ''12345'' [] (empty_heap :: (int, int) heap)) =
     (\<lparr>row_height = 10,
       row_cols = [\<lparr>col_size = 0, col_isMax = False, col_components = [0],
                    col_config = None, col_style = None\<rparr>]\<rparr> :: unit row) \<and>
   fst (NewMatrixRow percent_ops 10 ''12345'' [] (empty_heap :: (int, int) heap)) =
     (\<lparr>row_height = 10,
       row_cols = [\<lparr>col_size = 0, col_isMax = True, col_components = [0],
                    col_config = None, col_style = None\<rparr>]\<rparr> :: unit row) \<and>
   GetSize configs12
     (\<lparr>col_size = 0, col_isMax = False, col_components = [0], col_config = Some 7,
       col_style = None\<rparr> :: unit col) = Inr 0 \<and>
   GetSize configs12
     (\<lparr>col_size = 0, col_isMax = True, col_components = [0], col_config = Some 7,
       col_style = None\<rparr> :: unit col) = Inr 12"
  by (simp add: NewBarRow_def NewMatrixRow_def NewBar_def NewMatrix_def alloc_def
        empty_heap_def Add_def row_Add_def row_New_def GetSize_def configs12_def)

end
